theory Spec2Isabelle
  imports Complex_Main
begin

section \<open>JavaScript numbers\<close>

text \<open>
  JavaScript numbers are modelled as the reals they denote. \<open>Math.round\<close> rounds to the
  nearest integer and rounds a tie towards plus infinity.
\<close>

definition js_round :: "real \<Rightarrow> int" where
  "js_round x = \<lfloor>x + 1 / 2\<rfloor>"

datatype js_error = TypeError

section \<open>Trend Forecaster (\<open>generateForecast\<close>, \<open>calculateRSquared\<close>)\<close>

text \<open>The index positions \<open>x = Array.from({length: n}, (_, i) => i)\<close>.\<close>

definition xs_of :: "nat \<Rightarrow> real list" where
  "xs_of n = map real [0..<n]"

definition sumX :: "real list \<Rightarrow> real" where
  "sumX y = sum_list (xs_of (length y))"

definition sumY :: "real list \<Rightarrow> real" where
  "sumY y = sum_list y"

definition sumXY :: "real list \<Rightarrow> real" where
  "sumXY y = sum_list (map (\<lambda>i. real i * y ! i) [0..<length y])"

definition sumXX :: "real list \<Rightarrow> real" where
  "sumXX y = sum_list (map (\<lambda>xi. xi * xi) (xs_of (length y)))"

definition slope :: "real list \<Rightarrow> real" where
  "slope y = (real (length y) * sumXY y - sumX y * sumY y)
             / (real (length y) * sumXX y - sumX y * sumX y)"

definition intercept :: "real list \<Rightarrow> real" where
  "intercept y = (sumY y - slope y * sumX y) / real (length y)"

definition avg :: "real list \<Rightarrow> real" where
  "avg y = sumY y / real (length y)"

definition variance :: "real list \<Rightarrow> real" where
  "variance y = sum_list (map (\<lambda>yi. (yi - avg y)\<^sup>2) y) / real (length y)"

definition stdDev :: "real list \<Rightarrow> real" where
  "stdDev y = sqrt (variance y)"

text \<open>\<open>const confidence = 1.96 * stdDev\<close>\<close>

definition confidence :: "real list \<Rightarrow> real" where
  "confidence y = 1.96 * stdDev y"

text \<open>\<open>Math.max(0, Math.round(slope * xValue + intercept))\<close> at \<open>xValue = n + i\<close>.\<close>

definition predicted :: "real list \<Rightarrow> nat \<Rightarrow> int" where
  "predicted y i = max 0 (js_round (slope y * real (length y + i) + intercept y))"

definition upper :: "real list \<Rightarrow> nat \<Rightarrow> int" where
  "upper y i = max 0 (js_round (real_of_int (predicted y i) + confidence y))"

definition lower :: "real list \<Rightarrow> nat \<Rightarrow> int" where
  "lower y i = max 0 (js_round (real_of_int (predicted y i) - confidence y))"

definition ssRes :: "real list \<Rightarrow> real \<Rightarrow> real \<Rightarrow> real" where
  "ssRes y m b = sum_list (map (\<lambda>i. (y ! i - (m * real i + b))\<^sup>2) [0..<length y])"

definition ssTot :: "real list \<Rightarrow> real" where
  "ssTot y = sum_list (map (\<lambda>yi. (yi - sumY y / real (length y))\<^sup>2) y)"

text \<open>
  \<open>1 - (ssRes / ssTot)\<close>. With \<open>ssTot = 0\<close> the quotient is \<open>NaN\<close> or \<open>Infinity\<close> in
  JavaScript, so the result is not a finite number: \<open>None\<close>.
\<close>

definition calculateRSquared :: "real list \<Rightarrow> real \<Rightarrow> real \<Rightarrow> real option" where
  "calculateRSquared y m b =
     (if ssTot y = 0 then None else Some (1 - ssRes y m b / ssTot y))"

record trend_fit =
  forecast :: "int list"
  confidenceUpper :: "int list"
  confidenceLower :: "int list"
  trend :: real
  rSquared :: "real option"

text \<open>
  With fewer than three points the function returns a bare array, otherwise the
  object with the three series, the slope and the fit score.
\<close>

datatype forecast_result = Flat "real list" | Fit trend_fit

text \<open>
  \<open>historicalData\<close> is \<open>None\<close> for \<open>null\<close>/\<open>undefined\<close>: the guard \<open>!historicalData\<close> then
  enters the fallback branch, whose \<open>historicalData.length\<close> throws.
  \<open>historicalData[historicalData.length - 1] || 0\<close> is \<open>0\<close> for the empty array.
\<close>

definition generateForecast :: "real list option \<Rightarrow> nat \<Rightarrow> js_error + forecast_result" where
  "generateForecast historicalData months =
     (case historicalData of
        None \<Rightarrow> Inl TypeError
      | Some y \<Rightarrow>
          if length y < 3 then
            (let lastValue = (if y = [] then 0 else last y)
             in Inr (Flat (replicate months (max 0 lastValue))))
          else
            Inr (Fit \<lparr> forecast = map (predicted y) [0..<months],
                       confidenceUpper = map (upper y) [0..<months],
                       confidenceLower = map (lower y) [0..<months],
                       trend = slope y,
                       rSquared = calculateRSquared y (slope y) (intercept y) \<rparr>))"

section \<open>JavaScript values\<close>

text \<open>
  Report documents come from the document store with no fixed shape, so they are
  modelled as JavaScript values: \<open>JObj\<close> is a plain object with its own properties in
  order, \<open>JNaN\<close> is the number \<open>NaN\<close>, and \<open>JNum r s\<close> is the number \<open>r\<close> together with
  the decimal string \<open>s\<close> that the platform prints for it.
\<close>

datatype jsval =
    JUndefined
  | JNull
  | JBool bool
  | JNum real string
  | JNaN
  | JStr string
  | JObj "(string \<times> jsval) list"

text \<open>Truthiness, as \<open>||\<close>, \<open>&&\<close>, \<open>!\<close> and \<open>if\<close> see it.\<close>

fun truthy :: "jsval \<Rightarrow> bool" where
  "truthy JUndefined = False"
| "truthy JNull = False"
| "truthy (JBool b) = b"
| "truthy (JNum r s) = (r \<noteq> 0)"
| "truthy JNaN = False"
| "truthy (JStr s) = (s \<noteq> [])"
| "truthy (JObj kvs) = True"

text \<open>\<open>a || b\<close>\<close>

definition js_or :: "jsval \<Rightarrow> jsval \<Rightarrow> jsval" where
  "js_or a b = (if truthy a then a else b)"

text \<open>
  Property read \<open>v.k\<close> on a value that is neither \<open>null\<close> nor \<open>undefined\<close>: an own property
  of an object, \<open>undefined\<close> when it is absent and on every primitive (none of the
  property names read here exists on a string, number or boolean).
\<close>

fun getProp :: "jsval \<Rightarrow> string \<Rightarrow> jsval" where
  "getProp (JObj kvs) k = (case map_of kvs k of None \<Rightarrow> JUndefined | Some v \<Rightarrow> v)"
| "getProp v k = JUndefined"

text \<open>\<open>typeof v === 'object' && v !== null\<close>\<close>

fun isObject :: "jsval \<Rightarrow> bool" where
  "isObject (JObj kvs) = True"
| "isObject v = False"

text \<open>\<open>String(v)\<close>\<close>

fun js_String :: "jsval \<Rightarrow> string" where
  "js_String JUndefined = ''undefined''"
| "js_String JNull = ''null''"
| "js_String (JBool b) = (if b then ''true'' else ''false'')"
| "js_String (JNum r s) = s"
| "js_String JNaN = ''NaN''"
| "js_String (JStr s) = s"
| "js_String (JObj kvs) = ''[object Object]''"

section \<open>Historical Aggregator: field-name normalization (\<open>fetchHistoricalData\<close>)\<close>

text \<open>\<open>String(report.type || report.crimeType || report.crime_type || '')\<close>\<close>

definition reportType :: "jsval \<Rightarrow> string" where
  "reportType report =
     js_String
       (js_or (js_or (js_or (getProp report ''type'') (getProp report ''crimeType''))
                     (getProp report ''crime_type''))
              (JStr []))"

text \<open>
  \<open>report.location || report.location_address || report.address\<close>, replaced by
  \<open>address || name || 'Unknown'\<close> of that value when it is an object, then
  \<open>String(reportLocation || '')\<close>.
\<close>

definition reportLocation :: "jsval \<Rightarrow> string" where
  "reportLocation report =
     (let loc = js_or (js_or (getProp report ''location'') (getProp report ''location_address''))
                      (getProp report ''address'');
          loc' = (if isObject loc
                  then js_or (js_or (getProp loc ''address'') (getProp loc ''name'')) (JStr ''Unknown'')
                  else loc)
      in js_String (js_or loc' (JStr [])))"

text \<open>The filter callback: \<open>reportType === crimeType && reportLocation === location && report.date\<close>.\<close>

definition reportMatches :: "string \<Rightarrow> string \<Rightarrow> jsval \<Rightarrow> bool" where
  "reportMatches crimeType location report =
     (reportType report = crimeType
      \<and> reportLocation report = location
      \<and> truthy (getProp report ''date''))"

definition filterReports :: "string \<Rightarrow> string \<Rightarrow> jsval list \<Rightarrow> jsval list" where
  "filterReports crimeType location allReports =
     filter (reportMatches crimeType location) allReports"

section \<open>Spatial Density Aggregator (\<open>createHeatmapData\<close>)\<close>

text \<open>
  \<open>parseFloat(v)\<close>, \<open>None\<close> for \<open>NaN\<close>. The numeric prefix of a string is read by the
  platform: the parameter \<open>parseStr\<close>. Every other non-number is first turned into a
  string that starts with no digit.
\<close>

fun js_parseFloat :: "(string \<Rightarrow> real option) \<Rightarrow> jsval \<Rightarrow> real option" where
  "js_parseFloat parseStr (JNum r s) = Some r"
| "js_parseFloat parseStr (JStr s) = parseStr s"
| "js_parseFloat parseStr v = None"

text \<open>
  \<open>x.toFixed(4)\<close> prints \<open>n / 10\<^sup>4\<close> for the integer \<open>n\<close> nearest to \<open>x * 10\<^sup>4\<close> (the larger
  one on a tie); for the positive \<open>x\<close> that reach it the string is given by \<open>n\<close>.
\<close>

definition toFixed4 :: "real \<Rightarrow> int" where
  "toFixed4 x = \<lfloor>x * 10000 + 1 / 2\<rfloor>"

text \<open>The key \<open>`${lat.toFixed(4)},${lng.toFixed(4)}`\<close>.\<close>

definition cellKey :: "real \<Rightarrow> real \<Rightarrow> int \<times> int" where
  "cellKey la lo = (toFixed4 la, toFixed4 lo)"

record location_group =
  lat :: real
  lng :: real
  count :: nat
  reports :: "jsval list"

text \<open>The coordinates read from a report; each is a number or \<open>NaN\<close>.\<close>

definition readCoordinates :: "(string \<Rightarrow> real option) \<Rightarrow> jsval \<Rightarrow> real option \<times> real option" where
  "readCoordinates parseStr report =
     (if truthy (getProp report ''location'') then
        (js_parseFloat parseStr
           (js_or (getProp (getProp report ''location'') ''latitude'') (getProp (getProp report ''location'') ''lat'')),
         js_parseFloat parseStr
           (js_or (getProp (getProp report ''location'') ''longitude'') (getProp (getProp report ''location'') ''lng'')))
      else
        (js_parseFloat parseStr (js_or (getProp report ''latitude'') (getProp report ''lat'')),
         js_parseFloat parseStr (js_or (getProp report ''longitude'') (getProp report ''lng''))))"

text \<open>
  \<open>locationGroups\<close> is a \<open>Map\<close>: its entries stay in insertion order. A key already
  present has its count incremented and the report pushed.
\<close>

fun addToGroup :: "int \<times> int \<Rightarrow> real \<Rightarrow> real \<Rightarrow> jsval
                   \<Rightarrow> ((int \<times> int) \<times> location_group) list \<Rightarrow> ((int \<times> int) \<times> location_group) list" where
  "addToGroup key la lo report [] =
     [(key, \<lparr> lat = la, lng = lo, count = 1, reports = [report] \<rparr>)]"
| "addToGroup key la lo report ((k, g) # rest) =
     (if k = key
      then (k, g \<lparr> count := count g + 1, reports := reports g @ [report] \<rparr>) # rest
      else (k, g) # addToGroup key la lo report rest)"

text \<open>One round of the \<open>forEach\<close>: the two early returns leave the groups as they are.\<close>

definition groupReport :: "(string \<Rightarrow> real option) \<Rightarrow> ((int \<times> int) \<times> location_group) list \<Rightarrow> jsval
                            \<Rightarrow> ((int \<times> int) \<times> location_group) list" where
  "groupReport parseStr locationGroups report =
     (case readCoordinates parseStr report of
        (Some la, Some lo) \<Rightarrow>
          if la = 0 \<or> lo = 0 then locationGroups
          else if la < 4 \<or> la > 22 \<or> lo < 116 \<or> lo > 127 then locationGroups
          else addToGroup (cellKey la lo) la lo report locationGroups
      | _ \<Rightarrow> locationGroups)"

definition heatPoint :: "real \<Rightarrow> location_group \<Rightarrow> real \<times> real \<times> real" where
  "heatPoint intensity g =
     (let baseIntensity = min 1 (real (count g) / 10);
          userIntensityMultiplier = intensity / 10;
          finalIntensity = min 1 (baseIntensity * userIntensityMultiplier)
      in (lat g, lng g, finalIntensity))"

definition createHeatmapData :: "(string \<Rightarrow> real option) \<Rightarrow> real \<Rightarrow> jsval list
                                  \<Rightarrow> (real \<times> real \<times> real) list" where
  "createHeatmapData parseStr intensity filteredReports =
     map (heatPoint intensity \<circ> snd) (foldl (groupReport parseStr) [] filteredReports)"

section \<open>Pattern-Based Daily Forecaster (\<open>generateCrimeForecast\<close>)\<close>

text \<open>
  What the function takes from the platform: the clock (milliseconds since the epoch),
  the local calendar fields of an instant, the date part of \<open>toISOString()\<close>, and the
  draws of \<open>Math.random()\<close>, one for each forecast day.
\<close>

record calendar =
  now :: int
  getHours :: "int \<Rightarrow> nat"
  getDay :: "int \<Rightarrow> nat"
  getDate :: "int \<Rightarrow> nat"
  isoDate :: "int \<Rightarrow> string"
  mathRandom :: "nat \<Rightarrow> real"

text \<open>\<open>n || 0\<close> for the count read at a key, \<open>None\<close> when the key is absent.\<close>

definition orZero :: "nat option \<Rightarrow> nat" where
  "orZero n = (case n of None \<Rightarrow> 0 | Some c \<Rightarrow> c)"

text \<open>\<open>patterns[key] = (patterns[key] || 0) + 1\<close>, repeated from the empty object.\<close>

definition countUp :: "('k \<rightharpoonup> nat) \<Rightarrow> 'k \<Rightarrow> ('k \<rightharpoonup> nat)" where
  "countUp patterns key = patterns(key \<mapsto> orZero (patterns key) + 1)"

definition tally :: "'k list \<Rightarrow> ('k \<rightharpoonup> nat)" where
  "tally keys = foldl countUp Map.empty keys"

text \<open>
  \<open>historicalData\<close> is given by the instants \<open>new Date(item.timestamp)\<close> of its items,
  in order; every item that reaches the function has a valid date.
\<close>

definition hourlyPatterns :: "calendar \<Rightarrow> int list \<Rightarrow> (nat \<rightharpoonup> nat)" where
  "hourlyPatterns C historicalData = tally (map (getHours C) historicalData)"

definition dailyPatterns :: "calendar \<Rightarrow> int list \<Rightarrow> (nat \<rightharpoonup> nat)" where
  "dailyPatterns C historicalData = tally (map (getDay C) historicalData)"

definition weeklyPatterns :: "calendar \<Rightarrow> int list \<Rightarrow> (nat \<rightharpoonup> nat)" where
  "weeklyPatterns C historicalData = tally (map (\<lambda>t. getDate C t div 7) historicalData)"

text \<open>
  \<open>Math.max(1, (new Date() - new Date(historicalData[0].timestamp)) / (1000 * 60 * 60 * 24))\<close>;
  the caller has returned before on the empty array.
\<close>

definition daysInHistory :: "calendar \<Rightarrow> int list \<Rightarrow> real" where
  "daysInHistory C historicalData =
     max 1 (real_of_int (now C - hd historicalData) / (1000 * 60 * 60 * 24))"

definition baseRate :: "calendar \<Rightarrow> int list \<Rightarrow> real" where
  "baseRate C historicalData = real (length historicalData) / daysInHistory C historicalData"

text \<open>\<open>x || 1\<close> for a number \<open>x\<close>, \<open>None\<close> being \<open>NaN\<close>: both \<open>NaN\<close> and \<open>0\<close> give \<open>1\<close>.\<close>

definition orOne :: "real option \<Rightarrow> real" where
  "orOne x = (case x of None \<Rightarrow> 1 | Some v \<Rightarrow> if v = 0 then 1 else v)"

text \<open>\<open>dailyPatterns[dayOfWeek] / (totalCrimes / 7) || 1\<close>; an absent key divides \<open>undefined\<close>.\<close>

definition dayMultiplier :: "calendar \<Rightarrow> int list \<Rightarrow> nat \<Rightarrow> real" where
  "dayMultiplier C historicalData dayOfWeek =
     orOne (map_option (\<lambda>c. real c / (real (length historicalData) / 7))
                       (dailyPatterns C historicalData dayOfWeek))"

text \<open>\<open>weeklyPatterns[weekOfMonth] / (totalCrimes / 4) || 1\<close>\<close>

definition weekMultiplier :: "calendar \<Rightarrow> int list \<Rightarrow> nat \<Rightarrow> real" where
  "weekMultiplier C historicalData weekOfMonth =
     orOne (map_option (\<lambda>c. real c / (real (length historicalData) / 4))
                       (weeklyPatterns C historicalData weekOfMonth))"

text \<open>\<open>(hourlyPatterns[hour] || 0) / (totalCrimes / 24) || 1\<close>\<close>

definition hourMultiplier :: "calendar \<Rightarrow> int list \<Rightarrow> nat \<Rightarrow> real" where
  "hourMultiplier C historicalData hour =
     orOne (Some (real (orZero (hourlyPatterns C historicalData hour))
                  / (real (length historicalData) / 24)))"

text \<open>\<open>new Date(now.getTime() + (i * 24 * 60 * 60 * 1000))\<close>\<close>

definition forecastDate :: "calendar \<Rightarrow> nat \<Rightarrow> int" where
  "forecastDate C i = now C + int i * 24 * 60 * 60 * 1000"

text \<open>\<open>0.8 + (Math.random() * 0.4)\<close>, the draw of round \<open>i\<close>.\<close>

definition randomFactor :: "calendar \<Rightarrow> nat \<Rightarrow> real" where
  "randomFactor C i = 0.8 + mathRandom C i * 0.4"

text \<open>The value of \<open>dailyPrediction\<close> after the three multiplications of round \<open>i\<close>.\<close>

definition dailyPrediction :: "calendar \<Rightarrow> int list \<Rightarrow> nat \<Rightarrow> real" where
  "dailyPrediction C historicalData i =
     baseRate C historicalData
       * dayMultiplier C historicalData (getDay C (forecastDate C i))
       * weekMultiplier C historicalData (getDate C (forecastDate C i) div 7)
       * randomFactor C i"

record daily_forecast =
  date :: string
  dayOfWeek :: "string option"
  predictedCrimes :: int
  hourlyBreakdown :: "(nat \<times> int) list"
  riskLevel :: string

definition dayNames :: "string list" where
  "dayNames = [''Sunday'', ''Monday'', ''Tuesday'', ''Wednesday'', ''Thursday'', ''Friday'', ''Saturday'']"

text \<open>
  The object pushed in round \<open>i\<close>. \<open>hourlyBreakdown\<close> has the keys \<open>0\<close> to \<open>23\<close> in
  order; an index outside the array of day names reads \<open>undefined\<close> (\<open>None\<close>).
\<close>

definition forecastDay :: "calendar \<Rightarrow> int list \<Rightarrow> nat \<Rightarrow> daily_forecast" where
  "forecastDay C historicalData i =
     (let dayOfWeek = getDay C (forecastDate C i);
          dailyPrediction = dailyPrediction C historicalData i
      in \<lparr> date = isoDate C (forecastDate C i),
           dayOfWeek = (if dayOfWeek < length dayNames then Some (dayNames ! dayOfWeek) else None),
           predictedCrimes = js_round dailyPrediction,
           hourlyBreakdown =
             map (\<lambda>hour. (hour, js_round ((dailyPrediction / 24) * hourMultiplier C historicalData hour)))
                 [0..<24],
           riskLevel = (if dailyPrediction > baseRate C historicalData * 1.5 then ''High''
                        else if dailyPrediction > baseRate C historicalData * 1.2 then ''Medium''
                        else ''Low'') \<rparr>)"

definition forecastDays :: "string \<Rightarrow> nat" where
  "forecastDays period = (if period = ''1week'' then 7 else if period = ''2weeks'' then 14 else 30)"

definition generateCrimeForecast :: "calendar \<Rightarrow> int list \<Rightarrow> string \<Rightarrow> daily_forecast list" where
  "generateCrimeForecast C historicalData period =
     (if historicalData = [] then []
      else map (forecastDay C historicalData) [1..<forecastDays period + 1])"

section \<open>Insight Synthesizer (\<open>generateForecastInsights\<close>)\<close>

record peak_hour =
  hour :: nat
  count_ph :: int

record peak_day =
  date_pd :: string
  dayOfWeek_pd :: "string option"
  crimes :: int

record forecast_insights =
  predictedCrimeCount :: int
  riskLevel_fi :: string
  peakHours :: "peak_hour list"
  peakDays :: "peak_day list"
  recommendations :: "string list"

text \<open>
  \<open>hourlyTotals[hour] = (hourlyTotals[hour] || 0) + count\<close>. The keys are hours, and
  \<open>Object.entries\<close> lists integer keys in ascending order, so the entries are kept in
  that order.
\<close>

fun addTotal :: "nat \<Rightarrow> int \<Rightarrow> (nat \<times> int) list \<Rightarrow> (nat \<times> int) list" where
  "addTotal h c [] = [(h, c)]"
| "addTotal h c ((k, v) # rest) =
     (if h = k then (k, v + c) # rest
      else if h < k then (h, c) # (k, v) # rest
      else (k, v) # addTotal h c rest)"

definition hourlyTotals :: "daily_forecast list \<Rightarrow> (nat \<times> int) list" where
  "hourlyTotals forecastData =
     foldl (\<lambda>totals day. foldl (\<lambda>t (h, c). addTotal h c t) totals (hourlyBreakdown day))
           [] forecastData"

text \<open>
  \<open>forecastData.sort((a, b) => b.predictedCrimes - a.predictedCrimes)\<close>: the array's own
  \<open>sort\<close>, which is stable and reorders the array it is called on.
\<close>

definition sortByPredicted :: "daily_forecast list \<Rightarrow> daily_forecast list" where
  "sortByPredicted forecastData = sort_key (\<lambda>day. - predictedCrimes day) forecastData"

text \<open>
  The function returns the insight object; the second component is the array
  \<open>forecastData\<close> as the call leaves it. \<open>historicalData\<close> is read for its length only.
\<close>

definition generateForecastInsights ::
    "daily_forecast list \<Rightarrow> 'a list \<Rightarrow> forecast_insights \<times> daily_forecast list" where
  "generateForecastInsights forecastData historicalData =
     (if forecastData = [] then
        (\<lparr> predictedCrimeCount = 0, riskLevel_fi = ''Low'', peakHours = [], peakDays = [],
           recommendations = [] \<rparr>, forecastData)
      else
        (let totalPredicted = sum_list (map predictedCrimes forecastData);
             peakHours = map (\<lambda>(h, c). \<lparr> hour = h, count_ph = c \<rparr>)
                             (take 3 (sort_key (\<lambda>(h, c). - c) (hourlyTotals forecastData)));
             forecastData = sortByPredicted forecastData;
             peakDays = map (\<lambda>day. \<lparr> date_pd = date day, dayOfWeek_pd = dayOfWeek day,
                                       crimes = predictedCrimes day \<rparr>)
                            (take 3 forecastData);
             highRiskDays = length (filter (\<lambda>day. riskLevel day = ''High'') forecastData);
             riskLevel = (if real highRiskDays > real (length forecastData) * 0.3 then ''High''
                          else if real highRiskDays > real (length forecastData) * 0.1 then ''Medium''
                          else ''Low'');
             recommendations =
               (if riskLevel = ''High''
                then [''Increase police patrols during peak hours'',
                      ''Deploy additional resources in high-risk areas'']
                else [])
               @ (if list_ex (\<lambda>h. hour h \<ge> 18 \<or> hour h \<le> 6) peakHours
                  then [''Enhance night-time security measures''] else [])
               @ (if list_ex (\<lambda>d. dayOfWeek_pd d = Some ''Friday'' \<or> dayOfWeek_pd d = Some ''Saturday'')
                             peakDays
                  then [''Prepare for weekend crime surge''] else [])
               @ (if real_of_int totalPredicted > real (length historicalData) * 0.5
                  then [''Consider community awareness campaigns''] else [])
         in (\<lparr> predictedCrimeCount = totalPredicted, riskLevel_fi = riskLevel,
                peakHours = peakHours, peakDays = peakDays,
                recommendations = recommendations \<rparr>, forecastData)))"

section \<open>Statistical fallback of \<open>fetchCrimeForecast\<close>\<close>

text \<open>
  What the fallback takes from the platform besides the calendar: the string
  \<open>new Date().toISOString()\<close>, the instant three calendar months back
  (\<open>setMonth(getMonth() - 3)\<close> on \<open>new Date()\<close>), and the date parser
  (\<open>None\<close> is an invalid date).
\<close>

record clock =
  nowISOString :: string
  threeMonthsAgo :: int
  parseDate :: "string \<Rightarrow> int option"

text \<open>\<open>new Date(v)\<close>: a number is the instant itself, truncated; a string is parsed.\<close>

fun newDate :: "clock \<Rightarrow> jsval \<Rightarrow> int option" where
  "newDate K (JStr s) = parseDate K s"
| "newDate K (JNum r s) =
     (if \<bar>r\<bar> \<le> 8640000000000000 then Some (if r \<ge> 0 then \<lfloor>r\<rfloor> else \<lceil>r\<rceil>) else None)"
| "newDate K (JBool b) = Some (if b then 1 else 0)"
| "newDate K JNull = Some 0"
| "newDate K JUndefined = None"
| "newDate K JNaN = None"
| "newDate K (JObj kvs) = parseDate K ''[object Object]''"

record history_item =
  item_id :: string
  timestamp :: jsval
  crimeType :: jsval

text \<open>
  The \<open>map\<close> callback over \<open>Object.entries(rawData)\<close>. Of the spread \<open>...reportData\<close>
  nothing but the two overwritten fields is read afterwards.
\<close>

definition toHistoryItem :: "clock \<Rightarrow> string \<times> jsval \<Rightarrow> history_item" where
  "toHistoryItem K entry =
     (case entry of (key, data) \<Rightarrow>
        let reportData = (if truthy (getProp data ''reportId'')
                          then js_or (getProp data (js_String (getProp data ''reportId''))) data
                          else data)
        in \<lparr> item_id = key,
             timestamp = js_or (js_or (js_or (getProp reportData ''dateTime'')
                                             (getProp reportData ''createdAt''))
                                      (getProp reportData ''timestamp''))
                               (JStr (nowISOString K)),
             crimeType = js_or (getProp reportData ''crimeType'') (JStr ''Unknown'') \<rparr>)"

text \<open>
  The \<open>filter\<close> callback; \<open>forecastCrimeType\<close> is the selected type, empty for none.
  An invalid date compares false with every date.
\<close>

definition qualifies :: "clock \<Rightarrow> string \<Rightarrow> history_item \<Rightarrow> bool" where
  "qualifies K forecastCrimeType item =
     (if forecastCrimeType \<noteq> [] \<and> crimeType item \<noteq> JStr forecastCrimeType then False
      else (case newDate K (timestamp item) of
              None \<Rightarrow> False
            | Some t \<Rightarrow> t \<ge> threeMonthsAgo K))"

record forecast_state =
  forecastData :: "daily_forecast list"
  forecastInsights :: forecast_insights

text \<open>
  The statistical path, from the snapshot (\<open>None\<close> when it does not exist) to the two
  pieces of state it sets. A thrown \<open>Error\<close> is caught by the function itself and its
  message stored as the forecast error: \<open>Inl\<close> of the message.
\<close>

definition statisticalForecast ::
    "calendar \<Rightarrow> clock \<Rightarrow> (string \<times> jsval) list option \<Rightarrow> string \<Rightarrow> string
     \<Rightarrow> string + forecast_state" where
  "statisticalForecast C K snapshot forecastCrimeType forecastPeriod =
     (case snapshot of
        None \<Rightarrow> Inl ''No historical crime data available for forecasting''
      | Some rawData \<Rightarrow>
          let historicalData = filter (qualifies K forecastCrimeType) (map (toHistoryItem K) rawData)
          in if length historicalData < 10
             then Inl ''Insufficient historical data for accurate forecasting (minimum 10 records required)''
             else
               (let forecast = generateCrimeForecast C
                                 (List.map_filter (\<lambda>item. newDate K (timestamp item)) historicalData)
                                 forecastPeriod;
                    result = generateForecastInsights forecast historicalData
                in Inr \<lparr> forecastData = snd result, forecastInsights = fst result \<rparr>))"

section \<open>The UTC calendar\<close>

text \<open>
  The calendar of a platform whose time zone is UTC, for worked examples: hour of the
  day, day of the week (\<open>0\<close> is Sunday; the epoch was a Thursday) and the civil date
  of the day number.
\<close>

definition utcHours :: "int \<Rightarrow> nat" where
  "utcHours t = nat ((t div 3600000) mod 24)"

definition utcDay :: "int \<Rightarrow> nat" where
  "utcDay t = nat ((t div 86400000 + 4) mod 7)"

text \<open>Year, month and day of the month of a day number (days since 1970-01-01).\<close>

definition civil :: "int \<Rightarrow> int \<times> int \<times> int" where
  "civil z0 =
     (let z = z0 + 719468;
          era = z div 146097;
          doe = z - era * 146097;
          yoe = (doe - doe div 1460 + doe div 36524 - doe div 146096) div 365;
          doy = doe - (365 * yoe + yoe div 4 - yoe div 100);
          mp = (5 * doy + 2) div 153;
          d = doy - (153 * mp + 2) div 5 + 1;
          m = (if mp < 10 then mp + 3 else mp - 9);
          y = yoe + era * 400 + (if m \<le> 2 then 1 else 0)
      in (y, m, d))"

definition utcDate :: "int \<Rightarrow> nat" where
  "utcDate t = nat (snd (snd (civil (t div 86400000))))"

definition digit :: "int \<Rightarrow> char" where
  "digit n = ''0123456789'' ! nat (n mod 10)"

definition utcIsoDate :: "int \<Rightarrow> string" where
  "utcIsoDate t =
     (case civil (t div 86400000) of (y, m, d) \<Rightarrow>
        [digit (y div 1000), digit (y div 100), digit (y div 10), digit y]
        @ ''-'' @ [digit (m div 10), digit m] @ ''-'' @ [digit (d div 10), digit d])"

definition utcCalendar :: "int \<Rightarrow> (nat \<Rightarrow> real) \<Rightarrow> calendar" where
  "utcCalendar t rnd =
     \<lparr> now = t, getHours = utcHours, getDay = utcDay, getDate = utcDate,
       isoDate = utcIsoDate, mathRandom = rnd \<rparr>"

section \<open>Worked examples\<close>

text \<open>The perfectly linear monthly series.\<close>

definition linearSeries :: "real list" where
  "linearSeries = [1, 2, 3, 4, 5, 6]"

text \<open>
  Twenty-four reports, one in each hour of Monday 2026-01-05 (UTC), seen from
  2026-01-13T00:00Z with every draw of \<open>Math.random()\<close> equal to \<open>0.5\<close>.
\<close>

definition uniformDay :: "int list" where
  "uniformDay = map (\<lambda>h. 1767571200000 + int h * 3600000) [0..<24]"

definition uniformCalendar :: calendar where
  "uniformCalendar = utcCalendar 1768262400000 (\<lambda>i. 1 / 2)"

text \<open>
  Forecast days as the prediction service path builds them: no hourly breakdown, the
  risk level as received.
\<close>

definition serviceDay :: "string \<Rightarrow> string \<Rightarrow> int \<Rightarrow> string \<Rightarrow> daily_forecast" where
  "serviceDay d w n r =
     \<lparr> date = d, dayOfWeek = Some w, predictedCrimes = n, hourlyBreakdown = [], riskLevel = r \<rparr>"

definition tenDays :: "daily_forecast list" where
  "tenDays =
     [serviceDay ''2026-01-14'' ''Wednesday'' 2 ''Low'',
      serviceDay ''2026-01-15'' ''Thursday'' 3 ''Medium'',
      serviceDay ''2026-01-16'' ''Friday'' 6 ''High'',
      serviceDay ''2026-01-17'' ''Saturday'' 7 ''High'',
      serviceDay ''2026-01-18'' ''Sunday'' 2 ''Low'',
      serviceDay ''2026-01-19'' ''Monday'' 2 ''Low'',
      serviceDay ''2026-01-20'' ''Tuesday'' 3 ''Medium'',
      serviceDay ''2026-01-21'' ''Wednesday'' 2 ''Low'',
      serviceDay ''2026-01-22'' ''Thursday'' 5 ''High'',
      serviceDay ''2026-01-23'' ''Friday'' 6 ''High'']"

definition twoDays :: "daily_forecast list" where
  "twoDays = [serviceDay ''2026-01-14'' ''Wednesday'' 2 ''Low'',
              serviceDay ''2026-01-15'' ''Thursday'' 5 ''High'']"

text \<open>
  Geolocated reports as the heat map receives them: a nested \<open>location\<close> with
  \<open>latitude\<close> and \<open>longitude\<close>, here two numbers, or two values that are not numbers.
\<close>

definition geoReport :: "real \<Rightarrow> string \<Rightarrow> real \<Rightarrow> string \<Rightarrow> jsval" where
  "geoReport la las lo los =
     JObj [(''location'', JObj [(''latitude'', JNum la las), (''longitude'', JNum lo los)])]"

definition unparsedReport :: jsval where
  "unparsedReport = JObj [(''location'', JObj [(''latitude'', JNaN), (''longitude'', JNaN)])]"

text \<open>
  A report with no category key whose \<open>location\<close> is an object of coordinates, with
  neither \<open>address\<close> nor \<open>name\<close>, and a report with no category and no location key at
  all.
\<close>

definition coordinateOnlyReport :: jsval where
  "coordinateOnlyReport =
     JObj [(''location'', JObj [(''latitude'', JNum 14.6042 ''14.6042''),
                                (''longitude'', JNum 120.9822 ''120.9822'')]),
           (''date'', JStr ''2026-01-05'')]"

definition bareReport :: jsval where
  "bareReport = JObj [(''description'', JStr ''Noise at night''), (''date'', JStr ''2026-01-05'')]"

text \<open>
  The clock at 2026-01-13T00:00Z, three calendar months after 2025-10-13T00:00Z; of
  the date parser, the two strings the example reads. Ten reports created on
  2025-06-01.
\<close>

definition exampleClock :: clock where
  "exampleClock =
     \<lparr> nowISOString = ''2026-01-13T00:00:00.000Z'',
       threeMonthsAgo = 1760313600000,
       parseDate = (\<lambda>s. if s = ''2025-06-01T08:00:00.000Z'' then Some 1748764800000
                         else if s = ''2026-01-13T00:00:00.000Z'' then Some 1768262400000
                         else None) \<rparr>"

definition staleSnapshot :: "(string \<times> jsval) list" where
  "staleSnapshot =
     map (\<lambda>key. (key, JObj [(''crimeType'', JStr ''Theft''),
                               (''createdAt'', JStr ''2025-06-01T08:00:00.000Z'')]))
         [''r0'', ''r1'', ''r2'', ''r3'', ''r4'', ''r5'', ''r6'', ''r7'', ''r8'', ''r9'']"

section \<open>Properties of the Trend Forecaster\<close>

lemma js_round_mono: "x \<le> y \<Longrightarrow> js_round x \<le> js_round y"
  unfolding js_round_def by (intro floor_mono) simp

lemma js_round_of_int: "js_round (real_of_int k) = k"
  unfolding js_round_def by linarith

lemma js_round_err: "\<bar>real_of_int (js_round x) - x\<bar> \<le> 1 / 2"
  unfolding js_round_def by linarith

lemma variance_nonneg: "0 \<le> variance y"
  unfolding variance_def
  by (intro divide_nonneg_nonneg sum_list_nonneg) auto

lemma confidence_nonneg: "0 \<le> confidence y"
  unfolding confidence_def stdDev_def using variance_nonneg [of y] by simp

lemma predicted_nonneg: "0 \<le> predicted y i"
  unfolding predicted_def by simp

lemma lower_nonneg: "0 \<le> lower y i"
  unfolding lower_def by simp

lemma predicted_le_upper: "predicted y i \<le> upper y i"
proof -
  have "js_round (real_of_int (predicted y i))
          \<le> js_round (real_of_int (predicted y i) + confidence y)"
    using confidence_nonneg [of y] by (intro js_round_mono) simp
  then show ?thesis unfolding upper_def by (simp add: js_round_of_int)
qed

lemma lower_le_predicted: "lower y i \<le> predicted y i"
proof -
  have "js_round (real_of_int (predicted y i) - confidence y)
          \<le> js_round (real_of_int (predicted y i))"
    using confidence_nonneg [of y] by (intro js_round_mono) simp
  then show ?thesis
    unfolding lower_def using predicted_nonneg [of y i] by (simp add: js_round_of_int)
qed

subsection \<open>The linear series\<close>

lemma linear_slope: "slope linearSeries = 1"
  by (simp add: linearSeries_def slope_def sumXY_def sumX_def sumY_def sumXX_def xs_of_def upt_rec)

lemma linear_intercept: "intercept linearSeries = 1"
  by (simp add: intercept_def linear_slope)
     (simp add: linearSeries_def sumX_def sumY_def xs_of_def upt_rec)

lemma linear_variance: "variance linearSeries = 35 / 12"
  by (simp add: linearSeries_def variance_def avg_def sumY_def power2_eq_square)

lemma linear_confidence:
  "3.3 < confidence linearSeries" "confidence linearSeries < 3.45"
proof -
  have a: "1.7 < sqrt (35 / 12 :: real)"
    by (rule real_less_rsqrt) (simp add: power2_eq_square)
  have b: "sqrt (35 / 12 :: real) < 1.75"
    by (rule real_less_lsqrt) (simp_all add: power2_eq_square)
  show "3.3 < confidence linearSeries"
    using a by (simp add: confidence_def stdDev_def linear_variance)
  show "confidence linearSeries < 3.45"
    using b by (simp add: confidence_def stdDev_def linear_variance)
qed

lemma linear_predicted:
  "predicted linearSeries 0 = 7" "predicted linearSeries (Suc 0) = 8" "predicted linearSeries 2 = 9"
  by (simp_all add: predicted_def linear_slope linear_intercept js_round_def)
     (simp_all add: linearSeries_def)

lemma linear_upper:
  "upper linearSeries 0 = 10" "upper linearSeries (Suc 0) = 11" "upper linearSeries 2 = 12"
  using linear_confidence
  by (simp_all add: upper_def linear_predicted js_round_def) linarith+

lemma linear_lower:
  "lower linearSeries 0 = 4" "lower linearSeries (Suc 0) = 5" "lower linearSeries 2 = 6"
  using linear_confidence
  by (simp_all add: lower_def linear_predicted js_round_def) linarith+

lemma linear_rSquared: "calculateRSquared linearSeries 1 1 = Some 1"
  by (simp add: linearSeries_def calculateRSquared_def ssTot_def ssRes_def sumY_def upt_rec
        power2_eq_square)

lemma upt_3: "[0..<3] = [0, Suc 0, 2]"
  by (simp add: upt_rec)

lemma linear_length: "length linearSeries = 6"
  by (simp add: linearSeries_def)

text \<open>
  C1, as the code has it: for the series \<open>[1,2,3,4,5,6]\<close> and three months the slope is
  \<open>1\<close>, the intercept is \<open>1\<close> (the index positions start at \<open>0\<close>), the fit score is \<open>1\<close> and the
  predictions are \<open>[7,8,9]\<close>; the band is \<open>1.96\<close> standard deviations of the counts
  themselves, which gives the upper bounds \<open>[10,11,12]\<close> and the lower bounds \<open>[4,5,6]\<close>.
\<close>

theorem linear_series_forecast:
  "slope linearSeries = 1 \<and> intercept linearSeries = 1
   \<and> generateForecast (Some linearSeries) 3
       = Inr (Fit \<lparr> forecast = [7, 8, 9], confidenceUpper = [10, 11, 12],
                    confidenceLower = [4, 5, 6], trend = 1, rSquared = Some 1 \<rparr>)"
  by (simp add: generateForecast_def linear_length)
     (simp add: upt_3 linear_slope linear_intercept linear_predicted linear_upper linear_lower
        linear_rSquared)

text \<open>
  C1 as stated fails on the same input: the intercept is not \<open>0\<close>, and the result is not
  the one with zero-width bands.
\<close>

theorem linear_series_counterexample:
  "intercept linearSeries \<noteq> 0
   \<and> generateForecast (Some linearSeries) 3
       \<noteq> Inr (Fit \<lparr> forecast = [7, 8, 9], confidenceUpper = [7, 8, 9],
                    confidenceLower = [7, 8, 9], trend = 1, rSquared = Some 1 \<rparr>)"
  by (simp add: generateForecast_def linear_length)
     (simp add: upt_3 linear_intercept linear_upper)

text \<open>
  C6: a series of at least three points and a horizon of at least one month give a fit
  whose three series all have \<open>months\<close> entries, with
  \<open>0 \<le> lower \<le> predicted \<le> upper\<close> at every position.
\<close>

theorem trend_forecast_points_bounded:
  assumes "3 \<le> length y" and "1 \<le> months"
  shows "\<exists>fit. generateForecast (Some y) months = Inr (Fit fit)
           \<and> length (forecast fit) = months
           \<and> length (confidenceUpper fit) = months
           \<and> length (confidenceLower fit) = months
           \<and> (\<forall>i<months. 0 \<le> confidenceLower fit ! i
                 \<and> confidenceLower fit ! i \<le> forecast fit ! i
                 \<and> forecast fit ! i \<le> confidenceUpper fit ! i)"
  using assms
  by (simp add: generateForecast_def lower_nonneg lower_le_predicted predicted_le_upper)

theorem trend_forecast_points_bounded_witness:
  "3 \<le> length [2, 0, 7 :: real] \<and> (1::nat) \<le> 2 \<and>
   (case generateForecast (Some [2, 0, 7]) 2 of
      Inr (Fit fit) \<Rightarrow>
        length (forecast fit) = 2 \<and> length (confidenceUpper fit) = 2
        \<and> length (confidenceLower fit) = 2
        \<and> 0 \<le> confidenceLower fit ! 0 \<and> confidenceLower fit ! 0 \<le> forecast fit ! 0
        \<and> forecast fit ! 0 \<le> confidenceUpper fit ! 0
        \<and> 0 \<le> confidenceLower fit ! 1 \<and> confidenceLower fit ! 1 \<le> forecast fit ! 1
        \<and> forecast fit ! 1 \<le> confidenceUpper fit ! 1
    | _ \<Rightarrow> False)"
  using trend_forecast_points_bounded [of "[2, 0, 7]" 2] by auto

text \<open>
  C7: a series of fewer than three monthly counts (counts are not negative) is not an
  error; the result is the last count, or \<open>0\<close> for the empty series, once for every
  month of the horizon.
\<close>

theorem flat_continuation:
  assumes "length y < 3" and "\<forall>v\<in>set y. 0 \<le> v"
  shows "generateForecast (Some y) months
           = Inr (Flat (replicate months (if y = [] then 0 else last y)))"
  using assms by (auto simp add: generateForecast_def max_def)

theorem flat_continuation_witness:
  "generateForecast (Some [5]) 3 = Inr (Flat [5, 5, 5])"
  using flat_continuation [of "[5]" 3] by (simp add: numeral_3_eq_3)

section \<open>Properties of the Pattern-Based Daily Forecaster\<close>

lemma foldl_countUp:
  "foldl countUp patterns keys k =
     (if count_list keys k = 0 then patterns k
      else Some (orZero (patterns k) + count_list keys k))"
  by (induction keys arbitrary: patterns) (auto simp add: countUp_def orZero_def)

lemma tally_eq: "tally keys k = (if k \<in> set keys then Some (count_list keys k) else None)"
  unfolding tally_def by (simp add: foldl_countUp orZero_def count_list_0_iff)

lemma generateCrimeForecast_length:
  "historicalData \<noteq> [] \<Longrightarrow>
     length (generateCrimeForecast C historicalData period) = forecastDays period"
  by (simp add: generateCrimeForecast_def)

lemma generateCrimeForecast_nth:
  assumes ne: "historicalData \<noteq> []" and i: "i < forecastDays period"
  shows "generateCrimeForecast C historicalData period ! i = forecastDay C historicalData (Suc i)"
proof -
  have len: "i < length [1..<forecastDays period + 1]"
    using i by (simp del: upt_Suc)
  have "generateCrimeForecast C historicalData period ! i
          = forecastDay C historicalData ([1..<forecastDays period + 1] ! i)"
    using ne len by (simp only: generateCrimeForecast_def if_False nth_map)
  also have "[1..<forecastDays period + 1] ! i = 1 + i"
    using i by (intro nth_upt) simp
  finally show ?thesis by simp
qed

lemma sum_count_list:
  "\<forall>x\<in>set xs. x < (n::nat) \<Longrightarrow> (\<Sum>h<n. count_list xs h) = length xs"
proof (induction xs)
  case Nil
  then show ?case by simp
next
  case (Cons a xs)
  have "(\<Sum>h<n. count_list (a # xs) h) = (\<Sum>h<n. count_list xs h + (if h = a then 1 else 0))"
    by (intro sum.cong) auto
  also have "\<dots> = (\<Sum>h<n. count_list xs h) + (\<Sum>h<n. if h = a then 1 else 0)"
    by (simp add: sum.distrib)
  also have "(\<Sum>h<n. if h = a then 1 else 0) = (if a \<in> {..<n} then 1 else (0::nat))"
    by (rule sum.delta) simp
  finally show ?case using Cons by simp
qed

lemma hourMultiplier_present:
  assumes "h \<in> getHours C ` set historicalData"
  shows "hourMultiplier C historicalData h
           = real (count_list (map (getHours C) historicalData) h) * 24
             / real (length historicalData)"
proof -
  have "count_list (map (getHours C) historicalData) h \<noteq> 0"
    using assms by (simp add: count_list_0_iff)
  then have "0 < count_list (map (getHours C) historicalData) h" by simp
  moreover have "0 < length historicalData" using assms by auto
  ultimately show ?thesis
    using assms by (simp add: hourMultiplier_def hourlyPatterns_def tally_eq orOne_def orZero_def)
qed

lemma hourMultiplier_sum:
  assumes "\<forall>t\<in>set historicalData. getHours C t < 24"
      and "\<forall>h<24. h \<in> getHours C ` set historicalData"
  shows "(\<Sum>h<24. hourMultiplier C historicalData h) = 24"
proof -
  have ne: "0 < length historicalData" using assms(2) by force
  have "(\<Sum>h<24. hourMultiplier C historicalData h)
          = (\<Sum>h<24. real (count_list (map (getHours C) historicalData) h) * 24
                      / real (length historicalData))"
    using assms(2) by (intro sum.cong) (simp_all add: hourMultiplier_present)
  also have "\<dots> = real (\<Sum>h<24. count_list (map (getHours C) historicalData) h) * 24
                    / real (length historicalData)"
    by (simp add: sum_distrib_right sum_divide_distrib)
  also have "(\<Sum>h<24. count_list (map (getHours C) historicalData) h) = length historicalData"
    using sum_count_list [of "map (getHours C) historicalData" 24] assms(1) by simp
  finally show ?thesis using ne by simp
qed

lemma breakdown_sum:
  "sum_list (map snd (hourlyBreakdown (forecastDay C historicalData i)))
     = (\<Sum>h<24. js_round ((dailyPrediction C historicalData i / 24)
                            * hourMultiplier C historicalData h))"
proof -
  have "map snd (hourlyBreakdown (forecastDay C historicalData i))
          = map (\<lambda>h. js_round ((dailyPrediction C historicalData i / 24)
                                * hourMultiplier C historicalData h)) [0..<24]"
    by (simp add: forecastDay_def Let_def comp_def)
  then show ?thesis
    by (simp add: interv_sum_list_conv_sum_set_nat atLeast0LessThan)
qed

lemma breakdown_within_12:
  assumes "\<forall>t\<in>set historicalData. getHours C t < 24"
      and "\<forall>h<24. h \<in> getHours C ` set historicalData"
  shows "\<bar>sum_list (map snd (hourlyBreakdown (forecastDay C historicalData i)))
           - predictedCrimes (forecastDay C historicalData i)\<bar> \<le> 12"
proof -
  define p where "p = dailyPrediction C historicalData i"
  define f where "f h = (p / 24) * hourMultiplier C historicalData h" for h
  define S where "S = (\<Sum>h<24. js_round (f h))"
  define P where "P = js_round p"
  have total: "(\<Sum>h<24. f h) = p"
  proof -
    have "(\<Sum>h<24. f h) = (p / 24) * (\<Sum>h<24. hourMultiplier C historicalData h)"
      unfolding f_def by (simp add: sum_distrib_left)
    then show ?thesis using hourMultiplier_sum [OF assms] by simp
  qed
  have "\<bar>real_of_int S - p\<bar> = \<bar>\<Sum>h<24. (real_of_int (js_round (f h)) - f h)\<bar>"
    using total by (simp add: S_def sum_subtractf)
  also have "\<dots> \<le> (\<Sum>h<(24::nat). \<bar>real_of_int (js_round (f h)) - f h\<bar>)"
    by (rule sum_abs)
  also have "\<dots> \<le> (\<Sum>h<(24::nat). 1 / 2)"
    by (intro sum_mono js_round_err)
  finally have a: "\<bar>real_of_int S - p\<bar> \<le> 12" by simp
  have b: "\<bar>real_of_int P - p\<bar> \<le> 1 / 2" unfolding P_def by (rule js_round_err)
  have "\<bar>real_of_int S - real_of_int P\<bar> \<le> 12 + 1 / 2"
    using a b by linarith
  then have "real_of_int \<bar>S - P\<bar> \<le> 12 + 1 / 2" by simp
  then have "\<bar>S - P\<bar> \<le> 12" by linarith
  moreover have "predictedCrimes (forecastDay C historicalData i) = P"
    by (simp add: forecastDay_def Let_def p_def P_def)
  ultimately show ?thesis by (simp add: breakdown_sum f_def p_def S_def)
qed

lemma riskLevel_forecastDay:
  "riskLevel (forecastDay C historicalData i)
     = (if dailyPrediction C historicalData i > baseRate C historicalData * 1.5 then ''High''
        else if dailyPrediction C historicalData i > baseRate C historicalData * 1.2 then ''Medium''
        else ''Low'')"
  by (simp add: forecastDay_def Let_def)

subsection \<open>The uniform day\<close>

lemma upt_24:
  "[0..<24] = [0,1,2,3,4,5,6,7,8,9,10,11,12,13,14,15,16,17,18,19,20,21,22,23]"
  by (simp add: upt_rec)

lemma utcHours_less: "utcHours t < 24"
  unfolding utcHours_def by (simp add: nat_less_iff)

lemma uniform_hours: "map utcHours uniformDay = [0..<24]"
  unfolding uniformDay_def upt_24 by (simp add: utcHours_def)

lemma uniform_days: "\<forall>t\<in>set uniformDay. utcDay t = 1"
  unfolding uniformDay_def upt_24 by (simp add: utcDay_def)

lemma civil_20458: "civil 20458 = (2026, 1, 5)"
  by code_simp

lemma civil_20467: "civil 20467 = (2026, 1, 14)"
  by code_simp

lemma uniform_daynum: "\<forall>t\<in>set uniformDay. t div 86400000 = 20458"
  unfolding uniformDay_def upt_24 by simp

lemma uniform_weeks: "\<forall>t\<in>set uniformDay. utcDate t div 7 = 0"
  using uniform_daynum by (simp add: utcDate_def civil_20458)

lemma uniformCalendar_simps:
  "now uniformCalendar = 1768262400000" "getHours uniformCalendar = utcHours"
  "getDay uniformCalendar = utcDay" "getDate uniformCalendar = utcDate"
  "mathRandom uniformCalendar i = 1 / 2"
  by (simp_all add: uniformCalendar_def utcCalendar_def)

lemma uniform_forecastDate: "forecastDate uniformCalendar (Suc 0) = 1768348800000"
  by (simp add: forecastDate_def uniformCalendar_simps)

lemma uniform_hd: "hd uniformDay = 1767571200000"
  unfolding uniformDay_def upt_24 by simp

lemma uniform_length: "length uniformDay = 24"
  unfolding uniformDay_def by simp

lemma uniform_baseRate: "baseRate uniformCalendar uniformDay = 3"
  by (simp add: baseRate_def daysInHistory_def uniformCalendar_simps uniform_hd uniform_length)

lemma uniform_forecast_day: "utcDay 1768348800000 = 3"
  by (simp add: utcDay_def)

lemma uniform_forecast_date: "utcDate 1768348800000 = 14"
  by (simp add: utcDate_def civil_20467)

lemma uniform_dayMultiplier: "dayMultiplier uniformCalendar uniformDay 3 = 1"
proof -
  have "3 \<notin> set (map utcDay uniformDay)" using uniform_days by auto
  then show ?thesis
    by (simp add: dayMultiplier_def dailyPatterns_def tally_eq uniformCalendar_simps orOne_def)
qed

lemma uniform_weekMultiplier: "weekMultiplier uniformCalendar uniformDay 2 = 1"
proof -
  have "2 \<notin> set (map (\<lambda>t. utcDate t div 7) uniformDay)" using uniform_weeks by auto
  then show ?thesis
    by (simp add: weekMultiplier_def weeklyPatterns_def tally_eq uniformCalendar_simps orOne_def)
qed

lemma uniform_dailyPrediction: "dailyPrediction uniformCalendar uniformDay (Suc 0) = 3"
  by (simp add: dailyPrediction_def uniform_forecastDate uniformCalendar_simps
        uniform_forecast_day uniform_forecast_date uniform_dayMultiplier uniform_weekMultiplier
        uniform_baseRate randomFactor_def)

lemma count_list_upt: "count_list [0..<n] h = (if h < n then 1 else 0)"
  by (induction n) auto

lemma uniform_hourMultiplier: "h < 24 \<Longrightarrow> hourMultiplier uniformCalendar uniformDay h = 1"
  by (simp add: hourMultiplier_def hourlyPatterns_def tally_eq uniformCalendar_simps
        uniform_hours uniform_length orOne_def orZero_def count_list_upt)

lemma uniform_predictedCrimes:
  "predictedCrimes (forecastDay uniformCalendar uniformDay (Suc 0)) = 3"
  by (simp add: forecastDay_def Let_def uniform_dailyPrediction js_round_def)

lemma uniform_breakdown:
  "sum_list (map snd (hourlyBreakdown (forecastDay uniformCalendar uniformDay (Suc 0)))) = 0"
proof -
  have "map snd (hourlyBreakdown (forecastDay uniformCalendar uniformDay (Suc 0)))
          = map (\<lambda>h. 0) [0..<24]"
    by (simp add: forecastDay_def Let_def uniform_dailyPrediction js_round_def
          uniform_hourMultiplier comp_def)
  then show ?thesis by simp
qed

lemma uniform_first_day:
  "generateCrimeForecast uniformCalendar uniformDay ''1week'' ! 0
     = forecastDay uniformCalendar uniformDay (Suc 0)"
proof -
  have "uniformDay \<noteq> []" using uniform_length by auto
  then show ?thesis by (intro generateCrimeForecast_nth) (simp_all add: forecastDays_def)
qed

lemma uniform_hours_ok: "\<forall>t\<in>set uniformDay. getHours uniformCalendar t < 24"
  by (simp add: uniformCalendar_simps utcHours_less)

lemma uniform_hours_all: "\<forall>h<24. h \<in> getHours uniformCalendar ` set uniformDay"
proof -
  have "getHours uniformCalendar ` set uniformDay = set [0..<24]"
    using uniform_hours by (metis uniformCalendar_simps(2) set_map)
  then show ?thesis by simp
qed

subsection \<open>Hourly breakdown and risk level\<close>

text \<open>
  C2, as the code has it: each of the twenty-four hourly shares is rounded on its own,
  so when every hour of the day occurs in the history (the calendar giving hours below
  24), the hourly breakdown of a forecast day sums to within 12 of that day's predicted
  count.
\<close>

theorem hourly_breakdown_sum_within_12:
  assumes "\<forall>t\<in>set historicalData. getHours C t < 24"
      and "\<forall>h<24. h \<in> getHours C ` set historicalData"
      and "i < forecastDays period"
  shows "\<bar>sum_list (map snd (hourlyBreakdown (generateCrimeForecast C historicalData period ! i)))
           - predictedCrimes (generateCrimeForecast C historicalData period ! i)\<bar> \<le> 12"
proof -
  have "historicalData \<noteq> []" using assms(2) by force
  then show ?thesis
    using assms by (simp add: generateCrimeForecast_nth breakdown_within_12)
qed

theorem hourly_breakdown_sum_within_12_witness:
  "\<bar>sum_list (map snd (hourlyBreakdown (generateCrimeForecast uniformCalendar uniformDay ''1week'' ! 0)))
     - predictedCrimes (generateCrimeForecast uniformCalendar uniformDay ''1week'' ! 0)\<bar> \<le> 12"
proof -
  have "0 < forecastDays ''1week''" by (simp add: forecastDays_def)
  from hourly_breakdown_sum_within_12 [OF uniform_hours_ok uniform_hours_all this]
  show ?thesis .
qed

text \<open>
  C2 as stated fails: with the twenty-four reports of the uniform day the first
  forecast day predicts 3, every hourly share is \<open>round(3 / 24) = 0\<close>, and the breakdown
  sums to 0.
\<close>

theorem hourly_breakdown_sum_counterexample:
  "10 \<le> length uniformDay
   \<and> predictedCrimes (generateCrimeForecast uniformCalendar uniformDay ''1week'' ! 0) = 3
   \<and> sum_list (map snd (hourlyBreakdown
         (generateCrimeForecast uniformCalendar uniformDay ''1week'' ! 0))) = 0
   \<and> \<not> \<bar>sum_list (map snd (hourlyBreakdown
             (generateCrimeForecast uniformCalendar uniformDay ''1week'' ! 0)))
           - predictedCrimes (generateCrimeForecast uniformCalendar uniformDay ''1week'' ! 0)\<bar> \<le> 1"
  by (simp add: uniform_first_day uniform_predictedCrimes uniform_breakdown uniform_length)

text \<open>
  C5: the risk level of every forecast day is decided by the day's prediction (the
  value that is rounded into the predicted count) and the base rate: High exactly above
  1.5 times the base rate, Medium exactly above 1.2 and up to 1.5 times, Low otherwise.
\<close>

theorem risk_level_thresholds:
  assumes "historicalData \<noteq> []" and "i < forecastDays period"
  shows "(riskLevel (generateCrimeForecast C historicalData period ! i) = ''High''
            \<longleftrightarrow> dailyPrediction C historicalData (Suc i) > 1.5 * baseRate C historicalData)
       \<and> (riskLevel (generateCrimeForecast C historicalData period ! i) = ''Medium''
            \<longleftrightarrow> 1.2 * baseRate C historicalData < dailyPrediction C historicalData (Suc i)
              \<and> dailyPrediction C historicalData (Suc i) \<le> 1.5 * baseRate C historicalData)
       \<and> (riskLevel (generateCrimeForecast C historicalData period ! i) = ''Low''
            \<longleftrightarrow> \<not> dailyPrediction C historicalData (Suc i) > 1.5 * baseRate C historicalData
              \<and> \<not> (1.2 * baseRate C historicalData < dailyPrediction C historicalData (Suc i)
                    \<and> dailyPrediction C historicalData (Suc i) \<le> 1.5 * baseRate C historicalData))
       \<and> predictedCrimes (generateCrimeForecast C historicalData period ! i)
            = js_round (dailyPrediction C historicalData (Suc i))"
  using assms
  by (auto simp add: generateCrimeForecast_nth riskLevel_forecastDay mult.commute
        forecastDay_def Let_def)

theorem risk_level_thresholds_witness:
  "riskLevel (generateCrimeForecast uniformCalendar uniformDay ''1week'' ! 0) = ''Low''
   \<and> dailyPrediction uniformCalendar uniformDay (Suc 0) = 3
   \<and> baseRate uniformCalendar uniformDay = 3"
proof -
  have ne: "uniformDay \<noteq> []" using uniform_length by auto
  have "0 < forecastDays ''1week''" by (simp add: forecastDays_def)
  from risk_level_thresholds [OF ne this, of uniformCalendar]
  show ?thesis by (simp add: uniform_dailyPrediction uniform_baseRate)
qed

section \<open>Properties of the Insight Synthesizer\<close>

lemma riskLevel_fi_eq:
  assumes "days \<noteq> []"
  shows "riskLevel_fi (fst (generateForecastInsights days history))
           = (if real (length (filter (\<lambda>day. riskLevel day = ''High'') days))
                   > real (length days) * 0.3 then ''High''
              else if real (length (filter (\<lambda>day. riskLevel day = ''High'') days))
                   > real (length days) * 0.1 then ''Medium''
              else ''Low'')"
  using assms
  by (simp add: generateForecastInsights_def Let_def sortByPredicted_def filter_sort)

lemma tenDays_counts:
  "length tenDays = 10" "length (filter (\<lambda>day. riskLevel day = ''High'') tenDays) = 4"
  by (simp_all add: tenDays_def serviceDay_def)

text \<open>
  C3 fails on the code: the peak days are taken by sorting \<open>forecastData\<close> itself, so
  after the call the array is in descending order of predicted count. With a day
  predicting 2 followed by a day predicting 5 the call leaves the two days swapped.
\<close>

theorem insights_reorder_input:
  "snd (generateForecastInsights twoDays ([] :: int list))
     = [serviceDay ''2026-01-15'' ''Thursday'' 5 ''High'',
        serviceDay ''2026-01-14'' ''Wednesday'' 2 ''Low'']
   \<and> snd (generateForecastInsights twoDays ([] :: int list)) \<noteq> twoDays"
  by (simp add: generateForecastInsights_def Let_def sortByPredicted_def twoDays_def
        serviceDay_def)

text \<open>
  C4: for a non-empty forecast the overall risk level is High exactly when the number
  of High days exceeds 0.3 times the number of days, Medium exactly when it exceeds 0.1
  times but not 0.3 times that number, and Low otherwise; four High days of ten give
  High.
\<close>

theorem overall_risk_level:
  assumes "days \<noteq> []"
  shows "(riskLevel_fi (fst (generateForecastInsights days history)) = ''High''
            \<longleftrightarrow> real (length (filter (\<lambda>day. riskLevel day = ''High'') days))
                  > 0.3 * real (length days))
       \<and> (riskLevel_fi (fst (generateForecastInsights days history)) = ''Medium''
            \<longleftrightarrow> real (length (filter (\<lambda>day. riskLevel day = ''High'') days))
                  > 0.1 * real (length days)
              \<and> \<not> real (length (filter (\<lambda>day. riskLevel day = ''High'') days))
                  > 0.3 * real (length days))
       \<and> (riskLevel_fi (fst (generateForecastInsights days history)) = ''Low''
            \<longleftrightarrow> \<not> real (length (filter (\<lambda>day. riskLevel day = ''High'') days))
                  > 0.1 * real (length days))"
  unfolding riskLevel_fi_eq [OF assms] by (auto simp add: mult.commute)

theorem overall_risk_level_witness:
  "riskLevel_fi (fst (generateForecastInsights tenDays ([] :: int list))) = ''High''"
proof -
  have "tenDays \<noteq> []" by (simp add: tenDays_def)
  from overall_risk_level [OF this, of "[] :: int list"] show ?thesis
    by (simp add: tenDays_counts)
qed

section \<open>Properties of the Spatial Density Aggregator\<close>

lemma readCoordinates_geoReport:
  "la \<noteq> 0 \<Longrightarrow> lo \<noteq> 0 \<Longrightarrow>
     readCoordinates parseStr (geoReport la las lo los) = (Some la, Some lo)"
  by (simp add: readCoordinates_def geoReport_def js_or_def)

lemma groupReport_zero: "groupReport parseStr groups (geoReport 0 ''0'' 0 ''0'') = groups"
  by (simp add: groupReport_def readCoordinates_def geoReport_def js_or_def)

lemma groupReport_outside: "groupReport parseStr groups (geoReport 91 ''91'' 200 ''200'') = groups"
  by (simp add: groupReport_def readCoordinates_geoReport)

lemma groupReport_unparsed: "groupReport parseStr groups unparsedReport = groups"
  by (simp add: groupReport_def readCoordinates_def unparsedReport_def js_or_def)

lemma same_cell: "cellKey 14.60421 120.98223 = cellKey 14.60419 120.98221"
  by (simp add: cellKey_def toFixed4_def)

text \<open>
  C8: the reports at \<open>(14.60421, 120.98223)\<close> and \<open>(14.60419, 120.98221)\<close> have the same
  key and make one heat point of count two; a report at \<open>(0, 0)\<close>, at \<open>(91, 200)\<close> or with
  coordinates that are not numbers changes nothing, wherever it stands among the
  reports.
\<close>

theorem heat_cells:
  "createHeatmapData parseStr intensity
     [geoReport 14.60421 ''14.60421'' 120.98223 ''120.98223'',
      geoReport 14.60419 ''14.60419'' 120.98221 ''120.98221'']
     = [(14.60421, 120.98223, min 1 (min 1 (2 / 10) * (intensity / 10)))]
   \<and> cellKey 14.60421 120.98223 = cellKey 14.60419 120.98221
   \<and> createHeatmapData parseStr intensity (before @ [geoReport 0 ''0'' 0 ''0''] @ after)
       = createHeatmapData parseStr intensity (before @ after)
   \<and> createHeatmapData parseStr intensity (before @ [geoReport 91 ''91'' 200 ''200''] @ after)
       = createHeatmapData parseStr intensity (before @ after)
   \<and> createHeatmapData parseStr intensity (before @ [unparsedReport] @ after)
       = createHeatmapData parseStr intensity (before @ after)"
proof -
  have "createHeatmapData parseStr intensity
     [geoReport 14.60421 ''14.60421'' 120.98223 ''120.98223'',
      geoReport 14.60419 ''14.60419'' 120.98221 ''120.98221'']
     = [(14.60421, 120.98223, min 1 (min 1 (2 / 10) * (intensity / 10)))]"
    by (simp add: createHeatmapData_def groupReport_def readCoordinates_geoReport cellKey_def
          toFixed4_def heatPoint_def Let_def)
  moreover have "createHeatmapData parseStr intensity (before @ [r] @ after)
                   = createHeatmapData parseStr intensity (before @ after)"
    if "\<And>groups. groupReport parseStr groups r = groups" for r
    using that by (simp add: createHeatmapData_def)
  ultimately show ?thesis
    using same_cell groupReport_zero groupReport_outside groupReport_unparsed by blast
qed

section \<open>Properties of the field-name normalization\<close>

text \<open>
  C9, as the code has it: a category that no supported key resolves is the empty
  string, and so is a location that no top-level key resolves; a location resolved to
  an object that has neither \<open>address\<close> nor \<open>name\<close> is the string \<open>Unknown\<close>.
\<close>

theorem unresolved_fields:
  "(\<not> truthy (getProp report ''type'') \<and> \<not> truthy (getProp report ''crimeType'')
      \<and> \<not> truthy (getProp report ''crime_type'')
      \<longrightarrow> reportType report = [])
   \<and> (\<not> truthy (getProp report ''location'') \<and> \<not> truthy (getProp report ''location_address'')
      \<and> \<not> truthy (getProp report ''address'')
      \<longrightarrow> reportLocation report = [])
   \<and> (isObject (js_or (js_or (getProp report ''location'') (getProp report ''location_address''))
                       (getProp report ''address''))
      \<and> \<not> truthy (getProp (js_or (js_or (getProp report ''location'')
                                           (getProp report ''location_address''))
                                    (getProp report ''address'')) ''address'')
      \<and> \<not> truthy (getProp (js_or (js_or (getProp report ''location'')
                                           (getProp report ''location_address''))
                                    (getProp report ''address'')) ''name'')
      \<longrightarrow> reportLocation report = ''Unknown'')"
proof -
  have nofalsy: "\<not> truthy v \<Longrightarrow> \<not> isObject v" for v by (cases v) auto
  show ?thesis
    by (auto simp add: reportType_def reportLocation_def js_or_def Let_def dest: nofalsy)
qed

theorem unresolved_fields_witness:
  "reportType bareReport = [] \<and> reportLocation bareReport = []
   \<and> reportLocation coordinateOnlyReport = ''Unknown''"
  using unresolved_fields [of bareReport] unresolved_fields [of coordinateOnlyReport]
  by (simp add: bareReport_def coordinateOnlyReport_def js_or_def)

text \<open>
  C9 as stated fails: neither the category nor the location of the coordinate-only
  report resolves from a supported key, nested ones included; its category is the empty
  string, but its location is not.
\<close>

theorem unresolved_location_counterexample:
  "\<not> truthy (getProp coordinateOnlyReport ''type'')
   \<and> \<not> truthy (getProp coordinateOnlyReport ''crimeType'')
   \<and> \<not> truthy (getProp coordinateOnlyReport ''crime_type'')
   \<and> \<not> truthy (getProp (getProp coordinateOnlyReport ''location'') ''address'')
   \<and> \<not> truthy (getProp (getProp coordinateOnlyReport ''location'') ''name'')
   \<and> \<not> truthy (getProp coordinateOnlyReport ''location_address'')
   \<and> \<not> truthy (getProp coordinateOnlyReport ''address'')
   \<and> reportLocation coordinateOnlyReport \<noteq> []"
  by (simp add: coordinateOnlyReport_def reportLocation_def js_or_def)

section \<open>Properties of the statistical fallback\<close>

lemma qualifies_cutoff:
  "qualifies K forecastCrimeType item \<Longrightarrow>
     \<exists>t. newDate K (timestamp item) = Some t \<and> threeMonthsAgo K \<le> t"
  by (auto simp add: qualifies_def split: if_splits option.splits)

lemma stale_entries:
  "\<forall>entry\<in>set staleSnapshot.
     (case newDate exampleClock (timestamp (toHistoryItem exampleClock entry)) of
        None \<Rightarrow> False | Some t \<Rightarrow> t < threeMonthsAgo exampleClock)"
  by (simp add: staleSnapshot_def toHistoryItem_def js_or_def exampleClock_def)

text \<open>
  C10: the cutoff is applied before the count. When every one of ten or more reports
  has a timestamp that reads as an instant before the cutoff three calendar months
  back, no report qualifies and the fallback ends with the insufficient-data error.
\<close>

theorem stale_history_insufficient:
  assumes "10 \<le> length rawData"
      and "\<forall>entry\<in>set rawData.
             (case newDate K (timestamp (toHistoryItem K entry)) of
                None \<Rightarrow> False | Some t \<Rightarrow> t < threeMonthsAgo K)"
  shows "filter (qualifies K forecastCrimeType) (map (toHistoryItem K) rawData) = []
       \<and> statisticalForecast C K (Some rawData) forecastCrimeType forecastPeriod
           = Inl ''Insufficient historical data for accurate forecasting (minimum 10 records required)''"
proof -
  have "\<not> qualifies K forecastCrimeType (toHistoryItem K entry)"
    if "entry \<in> set rawData" for entry
    using assms(2) that qualifies_cutoff [of K forecastCrimeType "toHistoryItem K entry"]
    by (fastforce split: option.splits)
  then have "filter (qualifies K forecastCrimeType) (map (toHistoryItem K) rawData) = []"
    by (simp add: filter_empty_conv)
  then show ?thesis by (simp add: statisticalForecast_def)
qed

theorem stale_history_insufficient_witness:
  "statisticalForecast uniformCalendar exampleClock (Some staleSnapshot) [] ''1week''
     = Inl ''Insufficient historical data for accurate forecasting (minimum 10 records required)''"
proof -
  have "10 \<le> length staleSnapshot" by (simp add: staleSnapshot_def)
  from stale_history_insufficient [OF this stale_entries, of "[]" uniformCalendar "''1week''"]
  show ?thesis by simp
qed

end
